theory Spec2Isabelle
  imports Main
begin

section \<open>The in-memory packet-filter controller\<close>

text \<open>
  The definitions of this section embed \<^verbatim>\<open>fakeIPTables\<close> of
  \<^verbatim>\<open>util/linuxfw/iptables_runner_test.go\<close>. The Go struct has two fields: \<^verbatim>\<open>t\<close>, the
  test handle on which the controller reports, and \<^verbatim>\<open>n\<close>, a map from the key
  \<^verbatim>\<open>table + "/" + chain\<close> to the chain's rules, each rule being one string (the arguments
  joined by a space). The fields are called \<open>fake_t\<close> and \<open>fake_n\<close> here, since a record
  field is a constant and the one-letter names would capture variables.

  \<^item> The test handle is modelled by the list of the reporting calls made on it, in order,
    with the format string and its arguments kept apart.
  \<^item> A Go slice that is \<^verbatim>\<open>nil\<close> and one that is empty are both the list \<open>[]\<close>: the code
    only ever takes \<^verbatim>\<open>len\<close> of a chain and ranges over it, which does not tell them apart.
  \<^item> \<^verbatim>\<open>pos\<close> is a Go \<^verbatim>\<open>int\<close>; it is an \<open>int\<close> here. The only arithmetic on it is
    \<^verbatim>\<open>len(rules)+1\<close>, which cannot overflow for a slice that fits in memory, and
    \<^verbatim>\<open>pos-1\<close>, which is evaluated only after \<^verbatim>\<open>rules[pos:]\<close> has been, and that
    expression already panics for every negative \<^verbatim>\<open>pos\<close>.
  \<^item> A run-time panic (a slice expression or an index out of range) is the outcome
    \<open>Panics\<close>, distinct from returning an error.
\<close>

datatype error = errExec | exitcode1

datatype fmtarg = D int | S string | Q string

datatype tcall = Errorf string "fmtarg list" | Logf string "fmtarg list"

record fakeIPTables =
  fake_t :: "tcall list"
  fake_n :: "string \<rightharpoonup> string list"

datatype ('a, 's) outcome = Returns (result_of: 'a) (state_of: 's) | Panics

subsection \<open>Go primitives used by the controller\<close>

text \<open>\<^verbatim>\<open>strings.Join(elems, sep)\<close>.\<close>

fun Join :: "string list \<Rightarrow> string \<Rightarrow> string" where
  "Join [] sep = []"
| "Join [a] sep = a"
| "Join (a # b # elems) sep = a @ sep @ Join (b # elems) sep"

text \<open>The slice expression \<^verbatim>\<open>s[low:]\<close>: it panics unless \<open>0 \<le> low \<le> len(s)\<close>.\<close>

definition slice_from :: "'a list \<Rightarrow> int \<Rightarrow> 'a list option" where
  "slice_from s low =
     (if 0 \<le> low \<and> low \<le> int (length s) then Some (drop (nat low) s) else None)"

text \<open>
  The built-in \<^verbatim>\<open>copy(dst, src)\<close>: it copies \<open>min(len(dst), len(src))\<close> elements and
  is correct for overlapping slices; the result is the new content of \<open>dst\<close>.
\<close>

definition go_copy :: "'a list \<Rightarrow> 'a list \<Rightarrow> 'a list" where
  "go_copy dst src =
     (let c = min (length dst) (length src) in take c src @ drop c dst)"

text \<open>The assignment \<^verbatim>\<open>s[i] = v\<close>: it panics unless \<open>0 \<le> i < len(s)\<close>.\<close>

definition index_set :: "'a list \<Rightarrow> int \<Rightarrow> 'a \<Rightarrow> 'a list option" where
  "index_set s i v =
     (if 0 \<le> i \<and> i < int (length s) then Some (s[nat i := v]) else None)"

subsection \<open>The controller's operations\<close>

definition newIPTables :: fakeIPTables where
  "newIPTables =
     \<lparr> fake_t = [],
       fake_n = [''filter/INPUT'' \<mapsto> [],
                 ''filter/OUTPUT'' \<mapsto> [],
                 ''filter/FORWARD'' \<mapsto> [],
                 ''nat/PREROUTING'' \<mapsto> [],
                 ''nat/OUTPUT'' \<mapsto> [],
                 ''nat/POSTROUTING'' \<mapsto> []] \<rparr>"

definition t_Errorf :: "fakeIPTables \<Rightarrow> string \<Rightarrow> fmtarg list \<Rightarrow> fakeIPTables" where
  "t_Errorf f fmt as = f\<lparr>fake_t := fake_t f @ [Errorf fmt as]\<rparr>"

definition t_Logf :: "fakeIPTables \<Rightarrow> string \<Rightarrow> fmtarg list \<Rightarrow> fakeIPTables" where
  "t_Logf f fmt as = f\<lparr>fake_t := fake_t f @ [Logf fmt as]\<rparr>"

text \<open>
  \<^verbatim>\<open>Insert\<close>. After the position check the code appends an empty string, shifts the tail
  with \<^verbatim>\<open>copy(rules[pos:], rules[pos-1:])\<close>, stores the joined arguments at index
  \<^verbatim>\<open>pos-1\<close> and writes the slice back to the map. The two slice expressions and the
  index are evaluated in this order, and each can panic.
\<close>

definition Insert ::
  "fakeIPTables \<Rightarrow> string \<Rightarrow> string \<Rightarrow> int \<Rightarrow> string list \<Rightarrow> (error option, fakeIPTables) outcome"
where
  "Insert f table chain pos args =
     (let k = table @ ''/'' @ chain in
      case fake_n f k of
        Some rules \<Rightarrow>
          if pos > int (length rules) + 1 then
            Returns (Some errExec) (t_Errorf f ''bad position %d in %s'' [D pos, S k])
          else
            (let rules1 = rules @ [''''] in
             case slice_from rules1 pos of
               None \<Rightarrow> Panics
             | Some dst \<Rightarrow>
                (case slice_from rules1 (pos - 1) of
                   None \<Rightarrow> Panics
                 | Some src \<Rightarrow>
                    (let rules2 = take (nat pos) rules1 @ go_copy dst src in
                     case index_set rules2 (pos - 1) (Join args '' '') of
                       None \<Rightarrow> Panics
                     | Some rules3 \<Rightarrow> Returns None (f\<lparr>fake_n := (fake_n f)(k \<mapsto> rules3)\<rparr>))))
      | None \<Rightarrow>
          Returns (Some errExec) (t_Errorf f ''unknown table/chain %s'' [S k]))"

text \<open>
  \<^verbatim>\<open>Append\<close>: \<^verbatim>\<open>len(n.n[k])\<close> reads the map without the \<^verbatim>\<open>ok\<close> test, so a missing key
  gives the nil slice, of length 0.
\<close>

definition Append ::
  "fakeIPTables \<Rightarrow> string \<Rightarrow> string \<Rightarrow> string list \<Rightarrow> (error option, fakeIPTables) outcome"
where
  "Append f table chain args =
     (let k = table @ ''/'' @ chain in
      Insert f table chain
        (int (length (case fake_n f k of None \<Rightarrow> [] | Some rules \<Rightarrow> rules)) + 1) args)"

text \<open>The loop of \<^verbatim>\<open>Exists\<close>: true at the first rule equal to the joined arguments.\<close>

fun Exists_loop :: "string list \<Rightarrow> string \<Rightarrow> bool" where
  "Exists_loop [] s = False"
| "Exists_loop (rule # rules) s = (if rule = s then True else Exists_loop rules s)"

definition Exists ::
  "fakeIPTables \<Rightarrow> string \<Rightarrow> string \<Rightarrow> string list \<Rightarrow> (bool \<times> error option, fakeIPTables) outcome"
where
  "Exists f table chain args =
     (let k = table @ ''/'' @ chain in
      case fake_n f k of
        Some rules \<Rightarrow> Returns (Exists_loop rules (Join args '' ''), None) f
      | None \<Rightarrow> Returns (False, Some errExec) (t_Logf f ''unknown table/chain %s'' [S k]))"

definition hasChain :: "fakeIPTables \<Rightarrow> string \<Rightarrow> string \<Rightarrow> bool" where
  "hasChain f table chain =
     (let k = table @ ''/'' @ chain in
      case fake_n f k of Some _ \<Rightarrow> True | None \<Rightarrow> False)"

text \<open>
  The loop of \<^verbatim>\<open>Delete\<close>: the index \<open>i\<close> of the first rule equal to the joined arguments,
  counted from the index of the head of the list; \<open>None\<close> when the loop runs to its end.
\<close>

fun Delete_loop :: "string list \<Rightarrow> string \<Rightarrow> nat \<Rightarrow> nat option" where
  "Delete_loop [] s i = None"
| "Delete_loop (rule # rules) s i = (if rule = s then Some i else Delete_loop rules s (Suc i))"

text \<open>
  \<^verbatim>\<open>Delete\<close>: at the match, \<^verbatim>\<open>append(rules[:i], rules[i+1:]...)\<close>, where \<open>i < len(rules)\<close>
  is a loop index, so neither slice expression can panic.
\<close>

definition Delete ::
  "fakeIPTables \<Rightarrow> string \<Rightarrow> string \<Rightarrow> string list \<Rightarrow> (error option, fakeIPTables) outcome"
where
  "Delete f table chain args =
     (let k = table @ ''/'' @ chain in
      case fake_n f k of
        Some rules \<Rightarrow>
          (case Delete_loop rules (Join args '' '') 0 of
             Some i \<Rightarrow>
               Returns None (f\<lparr>fake_n := (fake_n f)(k \<mapsto> take i rules @ drop (i + 1) rules)\<rparr>)
           | None \<Rightarrow>
               Returns (Some errExec)
                 (t_Errorf f ''delete of unknown rule %q from %s'' [Q (Join args '' ''), S k]))
      | None \<Rightarrow>
          Returns (Some errExec) (t_Errorf f ''unknown table/chain %s'' [S k]))"

definition ClearChain ::
  "fakeIPTables \<Rightarrow> string \<Rightarrow> string \<Rightarrow> (error option, fakeIPTables) outcome"
where
  "ClearChain f table chain =
     (let k = table @ ''/'' @ chain in
      case fake_n f k of
        Some _ \<Rightarrow> Returns None (f\<lparr>fake_n := (fake_n f)(k \<mapsto> [])\<rparr>)
      | None \<Rightarrow>
          Returns (Some exitcode1) (t_Logf f ''note: ClearChain: unknown table/chain %s'' [S k]))"

definition NewChain ::
  "fakeIPTables \<Rightarrow> string \<Rightarrow> string \<Rightarrow> (error option, fakeIPTables) outcome"
where
  "NewChain f table chain =
     (let k = table @ ''/'' @ chain in
      case fake_n f k of
        Some _ \<Rightarrow> Returns (Some errExec) (t_Errorf f ''table/chain %s already exists'' [S k])
      | None \<Rightarrow> Returns None (f\<lparr>fake_n := (fake_n f)(k \<mapsto> [])\<rparr>))"

definition DeleteChain ::
  "fakeIPTables \<Rightarrow> string \<Rightarrow> string \<Rightarrow> (error option, fakeIPTables) outcome"
where
  "DeleteChain f table chain =
     (let k = table @ ''/'' @ chain in
      case fake_n f k of
        Some rules \<Rightarrow>
          if length rules \<noteq> 0 then
            Returns (Some errExec) (t_Errorf f ''%s is not empty'' [S k])
          else Returns None (f\<lparr>fake_n := (fake_n f)(k := None)\<rparr>)
      | None \<Rightarrow> Returns (Some errExec) (t_Errorf f ''%s does not exist'' [S k]))"


section \<open>The dual-stack runner\<close>

text \<open>
  The test file constructs the runner as \<^verbatim>\<open>&iptablesRunner{ipt4, ipt6, true, true}\<close> and
  calls \<^verbatim>\<open>AddHooks\<close> on it; the struct's declaration and the method are in another file
  of the package. Both controllers of the test runner hold the same test handle; here each
  controller keeps the calls it made itself.
\<close>








section \<open>Facts about the controller's operations\<close>

lemma Insert_shift:
  assumes "1 \<le> p" "p \<le> length rules + 1"
  shows "(take p (rules @ [e]) @ go_copy (drop p (rules @ [e])) (drop (p - 1) (rules @ [e])))[p - 1 := v]
         = take (p - 1) rules @ [v] @ drop (p - 1) rules"
proof -
  obtain q where q: "p = Suc q" using assms(1) by (cases p) auto
  have ql: "q \<le> length rules" using assms(2) q by simp
  have c: "go_copy (drop p (rules @ [e])) (drop (p - 1) (rules @ [e])) = drop q rules"
    using ql by (simp add: go_copy_def q min_def)
  have t: "take p (rules @ [e]) = take q rules @ [(rules @ [e]) ! q]"
  proof -
    have "take (Suc q) (rules @ [e]) = take q (rules @ [e]) @ [(rules @ [e]) ! q]"
      by (rule take_Suc_conv_app_nth) (use ql in simp)
    then show ?thesis using ql by (simp add: q)
  qed
  show ?thesis
    unfolding c t using ql by (simp add: q list_update_append nth_append)
qed

lemma Insert_known:
  assumes "fake_n f (table @ ''/'' @ chain) = Some rules" "1 \<le> pos" "pos \<le> int (length rules) + 1"
  shows "Insert f table chain pos args =
           Returns None (f\<lparr>fake_n := (fake_n f)(table @ ''/'' @ chain \<mapsto>
              take (nat (pos - 1)) rules @ [Join args '' ''] @ drop (nat (pos - 1)) rules)\<rparr>)"
proof -
  have a: "1 \<le> nat pos" "nat pos \<le> length rules + 1" using assms(2,3) by auto
  have b: "nat (pos - 1) = nat pos - 1" by simp
  show ?thesis
    using assms Insert_shift[OF a, of "''''" "Join args '' ''"]
    by (simp add: Insert_def slice_from_def index_set_def Let_def b nat_diff_distrib)
qed

lemma Insert_unknown:
  assumes "fake_n f (table @ ''/'' @ chain) = None"
  shows "Insert f table chain pos args =
           Returns (Some errExec) (t_Errorf f ''unknown table/chain %s'' [S (table @ ''/'' @ chain)])"
  using assms by (simp add: Insert_def)

lemma Insert_too_far:
  assumes "fake_n f (table @ ''/'' @ chain) = Some rules" "pos > int (length rules) + 1"
  shows "Insert f table chain pos args =
           Returns (Some errExec)
             (t_Errorf f ''bad position %d in %s'' [D pos, S (table @ ''/'' @ chain)])"
  using assms by (simp add: Insert_def)

lemma Insert_nonpositive:
  assumes "fake_n f (table @ ''/'' @ chain) = Some rules" "pos \<le> 0"
  shows "Insert f table chain pos args = Panics"
  using assms by (simp add: Insert_def slice_from_def Let_def)

lemma fake_n_t_Errorf [simp]: "fake_n (t_Errorf f fmt as) = fake_n f"
  by (simp add: t_Errorf_def)

lemma fake_n_t_Logf [simp]: "fake_n (t_Logf f fmt as) = fake_n f"
  by (simp add: t_Logf_def)

lemma Exists_loop_iff: "Exists_loop rules s \<longleftrightarrow> s \<in> set rules"
  by (induction rules) auto

lemma Exists_known:
  assumes "fake_n f (table @ ''/'' @ chain) = Some rules"
  shows "Exists f table chain args = Returns (Join args '' '' \<in> set rules, None) f"
  using assms by (simp add: Exists_def Exists_loop_iff)

lemma Exists_unknown:
  assumes "fake_n f (table @ ''/'' @ chain) = None"
  shows "Exists f table chain args =
           Returns (False, Some errExec)
             (t_Logf f ''unknown table/chain %s'' [S (table @ ''/'' @ chain)])"
  using assms by (simp add: Exists_def)

lemma Delete_loop_None: "Delete_loop rules s i = None \<longleftrightarrow> s \<notin> set rules"
  by (induction rules arbitrary: i) auto

lemma Delete_loop_Some:
  "Delete_loop rules s i = Some j \<Longrightarrow>
     \<exists>xs ys. rules = xs @ s # ys \<and> s \<notin> set xs \<and> j = i + length xs"
proof (induction rules arbitrary: i)
  case Nil
  then show ?case by simp
next
  case (Cons r rules)
  show ?case
  proof (cases "r = s")
    case True
    with Cons.prems have "j = i" by simp
    with True show ?thesis by (intro exI[of _ "[]"] exI[of _ rules]) simp
  next
    case False
    with Cons.prems have "Delete_loop rules s (Suc i) = Some j" by simp
    from Cons.IH[OF this] obtain xs ys where
      "rules = xs @ s # ys" "s \<notin> set xs" "j = Suc i + length xs" by blast
    with False show ?thesis by (intro exI[of _ "r # xs"] exI[of _ ys]) simp
  qed
qed

lemma Delete_known_present:
  assumes "fake_n f (table @ ''/'' @ chain) = Some rules" "Join args '' '' \<in> set rules"
  shows "\<exists>xs ys. rules = xs @ Join args '' '' # ys \<and> Join args '' '' \<notin> set xs \<and>
           Delete f table chain args =
             Returns None (f\<lparr>fake_n := (fake_n f)(table @ ''/'' @ chain \<mapsto> xs @ ys)\<rparr>)"
proof -
  from assms(2) obtain j where j: "Delete_loop rules (Join args '' '') 0 = Some j"
    using Delete_loop_None[of rules "Join args '' ''" 0] by (cases "Delete_loop rules (Join args '' '') 0") auto
  from Delete_loop_Some[OF j] obtain xs ys where
    d: "rules = xs @ Join args '' '' # ys" "Join args '' '' \<notin> set xs" "j = length xs" by auto
  have "take j rules @ drop (j + 1) rules = xs @ ys" using d by simp
  then have "Delete f table chain args =
      Returns None (f\<lparr>fake_n := (fake_n f)(table @ ''/'' @ chain \<mapsto> xs @ ys)\<rparr>)"
    using assms(1) j by (simp add: Delete_def)
  with d show ?thesis by blast
qed

lemma Delete_known_absent:
  assumes "fake_n f (table @ ''/'' @ chain) = Some rules" "Join args '' '' \<notin> set rules"
  shows "Delete f table chain args =
           Returns (Some errExec)
             (t_Errorf f ''delete of unknown rule %q from %s''
                [Q (Join args '' ''), S (table @ ''/'' @ chain)])"
  using assms Delete_loop_None[of rules "Join args '' ''" 0] by (simp add: Delete_def)

lemma Delete_unknown:
  assumes "fake_n f (table @ ''/'' @ chain) = None"
  shows "Delete f table chain args =
           Returns (Some errExec) (t_Errorf f ''unknown table/chain %s'' [S (table @ ''/'' @ chain)])"
  using assms by (simp add: Delete_def)

lemma hasChain_iff: "hasChain f table chain \<longleftrightarrow> fake_n f (table @ ''/'' @ chain) \<noteq> None"
  by (simp add: hasChain_def split: option.splits)

section \<open>Insertion at a position\<close>

text \<open>
  Claim C1. On a known chain holding \<open>rules\<close>, and for a position \<open>p\<close> with
  \<open>1 \<le> p \<le> length rules + 1\<close>, \<^verbatim>\<open>Insert\<close> returns no error and changes nothing but the
  chain, which becomes the rules before position \<open>p\<close>, the new rule, and the rules that
  were at position \<open>p\<close> and after, in their order: the new rule is at 1-based position
  \<open>p\<close> (index \<open>p - 1\<close>), the rules before keep their index and the others move down by
  one. \<^verbatim>\<open>Exists\<close> with the same arguments on the resulting state returns \<open>(true, nil)\<close>.
\<close>

theorem Insert_places_rule:
  assumes "fake_n f (table @ ''/'' @ chain) = Some rules"
    and "1 \<le> p" and "p \<le> int (length rules) + 1"
  shows "\<exists>f' rules'.
           Insert f table chain p args = Returns None f' \<and>
           fake_n f' = (fake_n f)(table @ ''/'' @ chain \<mapsto> rules') \<and>
           fake_t f' = fake_t f \<and>
           rules' = take (nat (p - 1)) rules @ Join args '' '' # drop (nat (p - 1)) rules \<and>
           length rules' = length rules + 1 \<and>
           rules' ! nat (p - 1) = Join args '' '' \<and>
           (\<forall>i. i < nat (p - 1) \<longrightarrow> rules' ! i = rules ! i) \<and>
           (\<forall>i. nat (p - 1) \<le> i \<and> i < length rules \<longrightarrow> rules' ! Suc i = rules ! i) \<and>
           Exists f' table chain args = Returns (True, None) f'"
proof -
  define q where "q = nat (p - 1)"
  define rules' where "rules' = take q rules @ Join args '' '' # drop q rules"
  define f' where "f' = f\<lparr>fake_n := (fake_n f)(table @ ''/'' @ chain \<mapsto> rules')\<rparr>"
  have ql: "q \<le> length rules" using assms(2,3) by (simp add: q_def)
  have ins: "Insert f table chain p args = Returns None f'"
    using Insert_known[OF assms] by (simp add: f'_def rules'_def q_def)
  have len: "length rules' = length rules + 1"
    using ql by (simp add: rules'_def)
  have at: "rules' ! q = Join args '' ''"
    using ql by (simp add: rules'_def nth_append)
  have before: "\<forall>i. i < q \<longrightarrow> rules' ! i = rules ! i"
    using ql by (simp add: rules'_def nth_append)
  have after: "\<forall>i. q \<le> i \<and> i < length rules \<longrightarrow> rules' ! Suc i = rules ! i"
  proof (intro allI impI)
    fix i assume i: "q \<le> i \<and> i < length rules"
    then have "Suc i - q = Suc (i - q)" by (simp add: Suc_diff_le)
    with i ql show "rules' ! Suc i = rules ! i"
      by (simp add: rules'_def nth_append)
  qed
  have k: "fake_n f' (table @ ''/'' @ chain) = Some rules'" by (simp add: f'_def)
  have "Join args '' '' \<in> set rules'" by (simp add: rules'_def)
  with Exists_known[OF k, of args]
  have ex: "Exists f' table chain args = Returns (True, None) f'" by simp
  have "fake_n f' = (fake_n f)(table @ ''/'' @ chain \<mapsto> rules')" "fake_t f' = fake_t f"
    by (simp_all add: f'_def)
  with ins len at before after ex show ?thesis
    unfolding q_def[symmetric] rules'_def[symmetric] by blast
qed

text \<open>A chain with one rule, to insert in front of.\<close>

lemma Append_new_DROP:
  "Append newIPTables ''filter'' ''INPUT'' [''-j'', ''DROP''] =
     Returns None (newIPTables\<lparr>fake_n := (fake_n newIPTables)(''filter/INPUT'' \<mapsto> [''-j DROP''])\<rparr>)"
  by (simp add: Append_def Insert_def newIPTables_def slice_from_def go_copy_def index_set_def)

theorem Insert_places_rule_witness:
  "Insert (state_of (Append newIPTables ''filter'' ''INPUT'' [''-j'', ''DROP'']))
      ''filter'' ''INPUT'' 1 [''-j'', ''ts-input''] \<noteq> Panics \<and>
   result_of (Insert (state_of (Append newIPTables ''filter'' ''INPUT'' [''-j'', ''DROP'']))
      ''filter'' ''INPUT'' 1 [''-j'', ''ts-input'']) = None \<and>
   fake_n (state_of (Insert (state_of (Append newIPTables ''filter'' ''INPUT'' [''-j'', ''DROP'']))
      ''filter'' ''INPUT'' 1 [''-j'', ''ts-input''])) ''filter/INPUT'' =
     Some [''-j ts-input'', ''-j DROP'']"
  using Insert_places_rule [of "state_of (Append newIPTables ''filter'' ''INPUT'' [''-j'', ''DROP''])"
      "''filter''" "''INPUT''" "[''-j DROP'']" 1 "[''-j'', ''ts-input'']"]
  by (auto simp add: Append_new_DROP)

section \<open>Existence checks\<close>

text \<open>A rule inserted as a single argument that contains a space.\<close>

lemma Insert_new_joined:
  "Insert newIPTables ''filter'' ''INPUT'' 1 [''-j ts-input''] =
     Returns None (newIPTables\<lparr>fake_n := (fake_n newIPTables)(''filter/INPUT'' \<mapsto> [''-j ts-input''])\<rparr>)"
  by (simp add: Insert_def newIPTables_def slice_from_def go_copy_def index_set_def)

text \<open>
  Claim C2 as stated fails: a rule is stored as its arguments joined by a space, and
  \<^verbatim>\<open>Exists\<close> compares joined strings. After the one-argument rule \<^verbatim>\<open>{"-j ts-input"}\<close> is
  inserted in \<^verbatim>\<open>filter/INPUT\<close> of a fresh controller, \<^verbatim>\<open>Exists\<close> returns \<open>(true, nil)\<close> for
  the different, two-argument list \<^verbatim>\<open>{"-j", "ts-input"}\<close>.
\<close>

theorem Exists_distinct_args_counterexample:
  "[''-j ts-input''] \<noteq> [''-j'', ''ts-input''] \<and>
   Insert newIPTables ''filter'' ''INPUT'' 1 [''-j ts-input''] \<noteq> Panics \<and>
   result_of (Insert newIPTables ''filter'' ''INPUT'' 1 [''-j ts-input'']) = None \<and>
   result_of (Exists (state_of (Insert newIPTables ''filter'' ''INPUT'' 1 [''-j ts-input'']))
      ''filter'' ''INPUT'' [''-j'', ''ts-input'']) = (True, None)"
  by (simp add: Insert_new_joined Exists_def)

text \<open>
  Claim C2, amended. On a known chain \<^verbatim>\<open>Exists\<close> returns \<open>(true, nil)\<close> if the chain holds a
  rule equal to the arguments joined by single spaces and \<open>(false, nil)\<close> if not, and leaves
  the state as it is; argument lists are compared through the joined string only, so two
  lists with the same joined string give the same answer. On an unknown chain it returns
  \<open>(false, errExec)\<close> and the chains are unchanged.
\<close>

theorem Exists_iff_joined:
  "(\<forall>rules. fake_n f (table @ ''/'' @ chain) = Some rules \<longrightarrow>
      Exists f table chain args = Returns (Join args '' '' \<in> set rules, None) f) \<and>
   (\<forall>args'. Join args' '' '' = Join args '' '' \<longrightarrow>
      Exists f table chain args' = Exists f table chain args) \<and>
   (\<not> hasChain f table chain \<longrightarrow>
      (\<exists>f'. Exists f table chain args = Returns (False, Some errExec) f' \<and>
            fake_n f' = fake_n f))"
proof (intro conjI allI impI)
  fix rules assume "fake_n f (table @ ''/'' @ chain) = Some rules"
  then show "Exists f table chain args = Returns (Join args '' '' \<in> set rules, None) f"
    by (rule Exists_known)
next
  fix args' assume same: "Join args' '' '' = Join args '' ''"
  show "Exists f table chain args' = Exists f table chain args"
    unfolding Exists_def same by (rule refl)
next
  assume "\<not> hasChain f table chain"
  then have "fake_n f (table @ ''/'' @ chain) = None" by (simp add: hasChain_iff)
  from Exists_unknown[OF this, of args]
  show "\<exists>f'. Exists f table chain args = Returns (False, Some errExec) f' \<and> fake_n f' = fake_n f"
    by simp
qed

theorem Exists_iff_joined_witness:
  "Exists (state_of (Append newIPTables ''filter'' ''INPUT'' [''-j'', ''DROP'']))
      ''filter'' ''INPUT'' [''-j DROP''] =
     Returns (True, None) (state_of (Append newIPTables ''filter'' ''INPUT'' [''-j'', ''DROP''])) \<and>
   Exists (state_of (Append newIPTables ''filter'' ''INPUT'' [''-j'', ''DROP'']))
      ''filter'' ''INPUT'' [''-j'', ''DROP''] =
     Exists (state_of (Append newIPTables ''filter'' ''INPUT'' [''-j'', ''DROP'']))
      ''filter'' ''INPUT'' [''-j DROP''] \<and>
   \<not> hasChain newIPTables ''filter'' ''ts-input'' \<and>
   result_of (Exists newIPTables ''filter'' ''ts-input'' [''-j'', ''DROP'']) = (False, Some errExec)"
proof -
  let ?f = "state_of (Append newIPTables ''filter'' ''INPUT'' [''-j'', ''DROP''])"
  have k: "fake_n ?f (''filter'' @ ''/'' @ ''INPUT'') = Some [''-j DROP'']"
    by (simp add: Append_new_DROP)
  have j: "Join [''-j'', ''DROP''] '' '' = Join [''-j DROP''] '' ''" by simp
  have u: "\<not> hasChain newIPTables ''filter'' ''ts-input''"
    by (simp add: hasChain_def newIPTables_def)
  note v = Exists_iff_joined [of ?f "''filter''" "''INPUT''" "[''-j DROP'']"]
  have a: "Exists ?f ''filter'' ''INPUT'' [''-j DROP''] = Returns (True, None) ?f"
    using v[THEN conjunct1, rule_format, OF k] by simp
  have b: "Exists ?f ''filter'' ''INPUT'' [''-j'', ''DROP''] = Exists ?f ''filter'' ''INPUT'' [''-j DROP'']"
    using v[THEN conjunct2, THEN conjunct1, rule_format, OF j] .
  note w = Exists_iff_joined [of newIPTables "''filter''" "''ts-input''" "[''-j'', ''DROP'']"]
  from w[THEN conjunct2, THEN conjunct2, rule_format, OF u] obtain f' where
    "Exists newIPTables ''filter'' ''ts-input'' [''-j'', ''DROP''] = Returns (False, Some errExec) f'"
    by blast
  then have c: "result_of (Exists newIPTables ''filter'' ''ts-input'' [''-j'', ''DROP'']) = (False, Some errExec)"
    by simp
  from a b c u show ?thesis by blast
qed

section \<open>Appending\<close>

text \<open>Two facts about the fresh controller: a built-in chain is there and empty, an owned
  chain is not there.\<close>

lemma newIPTables_INPUT: "fake_n newIPTables (''filter'' @ ''/'' @ ''INPUT'') = Some []"
  by (simp add: newIPTables_def)

lemma newIPTables_no_ts_input: "\<not> hasChain newIPTables ''filter'' ''ts-input''"
  by (simp add: hasChain_def newIPTables_def)

text \<open>
  Claim C3. On a known chain holding \<open>rules\<close>, \<^verbatim>\<open>Append\<close> is \<^verbatim>\<open>Insert\<close> at position
  \<open>length rules + 1\<close>, with the same returned error and the same resulting state: no error,
  and the rule added at the end of the chain. On an unknown chain \<^verbatim>\<open>Append\<close> is \<^verbatim>\<open>Insert\<close>
  at any position whatsoever: both return \<open>errExec\<close> after the same report and leave the
  chains unchanged.
\<close>

theorem Append_is_Insert_at_end:
  "(\<forall>rules. fake_n f (table @ ''/'' @ chain) = Some rules \<longrightarrow>
      Append f table chain args = Insert f table chain (int (length rules) + 1) args \<and>
      Append f table chain args =
        Returns None (f\<lparr>fake_n := (fake_n f)(table @ ''/'' @ chain \<mapsto> rules @ [Join args '' ''])\<rparr>)) \<and>
   (\<not> hasChain f table chain \<longrightarrow>
      (\<forall>pos. Append f table chain args = Insert f table chain pos args) \<and>
      Append f table chain args =
        Returns (Some errExec) (t_Errorf f ''unknown table/chain %s'' [S (table @ ''/'' @ chain)]))"
proof (intro conjI allI impI)
  fix rules assume k: "fake_n f (table @ ''/'' @ chain) = Some rules"
  then show a: "Append f table chain args = Insert f table chain (int (length rules) + 1) args"
    by (simp add: Append_def)
  have "Insert f table chain (int (length rules) + 1) args =
      Returns None (f\<lparr>fake_n := (fake_n f)(table @ ''/'' @ chain \<mapsto>
        take (nat (int (length rules) + 1 - 1)) rules @ [Join args '' ''] @
        drop (nat (int (length rules) + 1 - 1)) rules)\<rparr>)"
    by (rule Insert_known[OF k]) simp_all
  with a show "Append f table chain args =
      Returns None (f\<lparr>fake_n := (fake_n f)(table @ ''/'' @ chain \<mapsto> rules @ [Join args '' ''])\<rparr>)"
    by simp
next
  assume "\<not> hasChain f table chain"
  then have u: "fake_n f (table @ ''/'' @ chain) = None" by (simp add: hasChain_iff)
  then have a: "Append f table chain args = Insert f table chain 1 args"
    by (simp add: Append_def)
  show "Append f table chain args =
      Returns (Some errExec) (t_Errorf f ''unknown table/chain %s'' [S (table @ ''/'' @ chain)])"
    unfolding a by (rule Insert_unknown[OF u])
  fix pos
  show "Append f table chain args = Insert f table chain pos args"
    unfolding a Insert_unknown[OF u] ..
qed

theorem Append_is_Insert_at_end_witness:
  "Append (state_of (Append newIPTables ''filter'' ''INPUT'' [''-j'', ''DROP'']))
      ''filter'' ''INPUT'' [''-j'', ''ACCEPT''] =
     Insert (state_of (Append newIPTables ''filter'' ''INPUT'' [''-j'', ''DROP'']))
      ''filter'' ''INPUT'' 2 [''-j'', ''ACCEPT''] \<and>
   fake_n (state_of (Append (state_of (Append newIPTables ''filter'' ''INPUT'' [''-j'', ''DROP'']))
      ''filter'' ''INPUT'' [''-j'', ''ACCEPT''])) ''filter/INPUT'' =
     Some [''-j DROP'', ''-j ACCEPT''] \<and>
   Append newIPTables ''filter'' ''ts-input'' [''-j'', ''DROP''] =
     Insert newIPTables ''filter'' ''ts-input'' 7 [''-j'', ''DROP''] \<and>
   result_of (Append newIPTables ''filter'' ''ts-input'' [''-j'', ''DROP'']) = Some errExec"
proof -
  let ?f = "state_of (Append newIPTables ''filter'' ''INPUT'' [''-j'', ''DROP''])"
  have k: "fake_n ?f (''filter'' @ ''/'' @ ''INPUT'') = Some [''-j DROP'']"
    by (simp add: Append_new_DROP)
  note v = Append_is_Insert_at_end [of ?f "''filter''" "''INPUT''" "[''-j'', ''ACCEPT'']",
      THEN conjunct1, rule_format, OF k]
  note w = Append_is_Insert_at_end [of newIPTables "''filter''" "''ts-input''" "[''-j'', ''DROP'']",
      THEN conjunct2, rule_format, OF newIPTables_no_ts_input]
  have a: "Append ?f ''filter'' ''INPUT'' [''-j'', ''ACCEPT''] =
     Insert ?f ''filter'' ''INPUT'' 2 [''-j'', ''ACCEPT'']"
    using v[THEN conjunct1] by simp
  have b: "fake_n (state_of (Append ?f ''filter'' ''INPUT'' [''-j'', ''ACCEPT''])) ''filter/INPUT'' =
     Some [''-j DROP'', ''-j ACCEPT'']"
    unfolding v[THEN conjunct2] by simp
  have c: "Append newIPTables ''filter'' ''ts-input'' [''-j'', ''DROP''] =
     Insert newIPTables ''filter'' ''ts-input'' 7 [''-j'', ''DROP'']"
    using w[THEN conjunct1, rule_format, of 7] .
  have d: "result_of (Append newIPTables ''filter'' ''ts-input'' [''-j'', ''DROP'']) = Some errExec"
    unfolding w[THEN conjunct2] by simp
  from a b c d show ?thesis by blast
qed

section \<open>Deleting a rule\<close>

text \<open>
  Claim C4 as stated fails where it speaks of the argument list: \<^verbatim>\<open>Delete\<close> compares the
  joined arguments with the stored rules. After the one-argument rule
  \<^verbatim>\<open>{"-j ts-input"}\<close> is inserted in \<^verbatim>\<open>filter/INPUT\<close> of a fresh controller, no rule with
  the argument list \<^verbatim>\<open>{"-j", "ts-input"}\<close> is in the chain, and yet \<^verbatim>\<open>Delete\<close> of that list
  returns no error and removes the rule.
\<close>

theorem Delete_other_args_counterexample:
  "[''-j'', ''ts-input''] \<noteq> [''-j ts-input''] \<and>
   fake_n (state_of (Insert newIPTables ''filter'' ''INPUT'' 1 [''-j ts-input''])) ''filter/INPUT'' =
     Some [''-j ts-input''] \<and>
   result_of (Delete (state_of (Insert newIPTables ''filter'' ''INPUT'' 1 [''-j ts-input'']))
      ''filter'' ''INPUT'' [''-j'', ''ts-input'']) = None \<and>
   fake_n (state_of (Delete (state_of (Insert newIPTables ''filter'' ''INPUT'' 1 [''-j ts-input'']))
      ''filter'' ''INPUT'' [''-j'', ''ts-input''])) ''filter/INPUT'' = Some []"
  by (simp add: Insert_new_joined Delete_def)

text \<open>
  Claim C4, amended. On a known chain that holds a rule equal to the arguments joined by
  single spaces, \<^verbatim>\<open>Delete\<close> returns no error and removes the first such rule: the chain
  was \<open>xs\<close>, the rule, \<open>ys\<close>, with no match in \<open>xs\<close>, and becomes \<open>xs\<close> followed by
  \<open>ys\<close>; nothing else changes. On a known chain without such a rule, and on an unknown
  chain, it returns \<open>errExec\<close> and the chains are unchanged. Argument lists are compared
  through the joined string only: two lists with the same joined string delete alike.
\<close>

theorem Delete_first_match:
  "(\<forall>rules. fake_n f (table @ ''/'' @ chain) = Some rules \<and> Join args '' '' \<in> set rules \<longrightarrow>
      (\<exists>xs ys. rules = xs @ Join args '' '' # ys \<and> Join args '' '' \<notin> set xs \<and>
         Delete f table chain args =
           Returns None (f\<lparr>fake_n := (fake_n f)(table @ ''/'' @ chain \<mapsto> xs @ ys)\<rparr>))) \<and>
   (\<forall>rules. fake_n f (table @ ''/'' @ chain) = Some rules \<and> Join args '' '' \<notin> set rules \<longrightarrow>
      (\<exists>f'. Delete f table chain args = Returns (Some errExec) f' \<and> fake_n f' = fake_n f)) \<and>
   (\<not> hasChain f table chain \<longrightarrow>
      (\<exists>f'. Delete f table chain args = Returns (Some errExec) f' \<and> fake_n f' = fake_n f)) \<and>
   (\<forall>args'. Join args' '' '' = Join args '' '' \<longrightarrow>
      Delete f table chain args' = Delete f table chain args)"
proof (intro conjI allI impI)
  fix rules
  assume "fake_n f (table @ ''/'' @ chain) = Some rules \<and> Join args '' '' \<in> set rules"
  then show "\<exists>xs ys. rules = xs @ Join args '' '' # ys \<and> Join args '' '' \<notin> set xs \<and>
         Delete f table chain args =
           Returns None (f\<lparr>fake_n := (fake_n f)(table @ ''/'' @ chain \<mapsto> xs @ ys)\<rparr>)"
    using Delete_known_present[of f table chain rules args] by blast
next
  fix rules
  assume "fake_n f (table @ ''/'' @ chain) = Some rules \<and> Join args '' '' \<notin> set rules"
  then have "Delete f table chain args =
           Returns (Some errExec)
             (t_Errorf f ''delete of unknown rule %q from %s''
                [Q (Join args '' ''), S (table @ ''/'' @ chain)])"
    using Delete_known_absent[of f table chain rules args] by blast
  then show "\<exists>f'. Delete f table chain args = Returns (Some errExec) f' \<and> fake_n f' = fake_n f"
    by simp
next
  assume "\<not> hasChain f table chain"
  then have "fake_n f (table @ ''/'' @ chain) = None" by (simp add: hasChain_iff)
  from Delete_unknown[OF this, of args]
  show "\<exists>f'. Delete f table chain args = Returns (Some errExec) f' \<and> fake_n f' = fake_n f"
    by simp
next
  fix args' assume same: "Join args' '' '' = Join args '' ''"
  show "Delete f table chain args' = Delete f table chain args"
    unfolding Delete_def same by (rule refl)
qed

theorem Delete_first_match_witness:
  "fake_n (state_of (Delete
       (newIPTables\<lparr>fake_n := (fake_n newIPTables)(''filter/INPUT'' \<mapsto> [''-j DROP'', ''-j ACCEPT'', ''-j DROP''])\<rparr>)
       ''filter'' ''INPUT'' [''-j'', ''DROP''])) ''filter/INPUT'' = Some [''-j ACCEPT'', ''-j DROP''] \<and>
   result_of (Delete newIPTables ''filter'' ''INPUT'' [''-j'', ''DROP'']) = Some errExec \<and>
   result_of (Delete newIPTables ''filter'' ''ts-input'' [''-j'', ''DROP'']) = Some errExec \<and>
   Delete
       (newIPTables\<lparr>fake_n := (fake_n newIPTables)(''filter/INPUT'' \<mapsto> [''-j DROP'', ''-j ACCEPT'', ''-j DROP''])\<rparr>)
       ''filter'' ''INPUT'' [''-j DROP''] =
     Delete
       (newIPTables\<lparr>fake_n := (fake_n newIPTables)(''filter/INPUT'' \<mapsto> [''-j DROP'', ''-j ACCEPT'', ''-j DROP''])\<rparr>)
       ''filter'' ''INPUT'' [''-j'', ''DROP'']"
proof -
  let ?f = "newIPTables\<lparr>fake_n := (fake_n newIPTables)(''filter/INPUT'' \<mapsto> [''-j DROP'', ''-j ACCEPT'', ''-j DROP''])\<rparr>"
  have "fake_n ?f (''filter'' @ ''/'' @ ''INPUT'') = Some [''-j DROP'', ''-j ACCEPT'', ''-j DROP''] \<and>
        Join [''-j'', ''DROP''] '' '' \<in> set [''-j DROP'', ''-j ACCEPT'', ''-j DROP'']"
    by simp
  from Delete_first_match [of ?f "''filter''" "''INPUT''" "[''-j'', ''DROP'']",
      THEN conjunct1, rule_format, OF this]
  obtain xs ys where s: "[''-j DROP'', ''-j ACCEPT'', ''-j DROP''] = xs @ Join [''-j'', ''DROP''] '' '' # ys"
    and n: "Join [''-j'', ''DROP''] '' '' \<notin> set xs"
    and d: "Delete ?f ''filter'' ''INPUT'' [''-j'', ''DROP''] =
       Returns None (?f\<lparr>fake_n := (fake_n ?f)(''filter'' @ ''/'' @ ''INPUT'' \<mapsto> xs @ ys)\<rparr>)"
    by blast
  from s n have "xs = [] \<and> ys = [''-j ACCEPT'', ''-j DROP'']"
    by (cases xs) auto
  with d have a: "fake_n (state_of (Delete ?f ''filter'' ''INPUT'' [''-j'', ''DROP''])) ''filter/INPUT'' =
      Some [''-j ACCEPT'', ''-j DROP'']"
    by simp
  have "fake_n newIPTables (''filter'' @ ''/'' @ ''INPUT'') = Some [] \<and>
        Join [''-j'', ''DROP''] '' '' \<notin> set []"
    by (simp add: newIPTables_def)
  from Delete_first_match [of newIPTables "''filter''" "''INPUT''" "[''-j'', ''DROP'']",
      THEN conjunct2, THEN conjunct1, rule_format, OF this]
  have b: "result_of (Delete newIPTables ''filter'' ''INPUT'' [''-j'', ''DROP'']) = Some errExec"
    by auto
  from Delete_first_match [of newIPTables "''filter''" "''ts-input''" "[''-j'', ''DROP'']",
      THEN conjunct2, THEN conjunct2, THEN conjunct1, rule_format, OF newIPTables_no_ts_input]
  have c: "result_of (Delete newIPTables ''filter'' ''ts-input'' [''-j'', ''DROP'']) = Some errExec"
    by auto
  have "Join [''-j DROP''] '' '' = Join [''-j'', ''DROP''] '' ''" by simp
  from Delete_first_match [of ?f "''filter''" "''INPUT''" "[''-j'', ''DROP'']",
      THEN conjunct2, THEN conjunct2, THEN conjunct2, rule_format, OF this]
  have d: "Delete ?f ''filter'' ''INPUT'' [''-j DROP''] = Delete ?f ''filter'' ''INPUT'' [''-j'', ''DROP'']" .
  from a b c d show ?thesis by blast
qed

section \<open>Deleting a chain\<close>

lemma DeleteChain_empty:
  assumes "fake_n f (table @ ''/'' @ chain) = Some []"
  shows "DeleteChain f table chain = Returns None (f\<lparr>fake_n := (fake_n f)(table @ ''/'' @ chain := None)\<rparr>)"
  using assms by (simp add: DeleteChain_def)

lemma DeleteChain_nonempty:
  assumes "fake_n f (table @ ''/'' @ chain) = Some rules" "rules \<noteq> []"
  shows "DeleteChain f table chain =
           Returns (Some errExec) (t_Errorf f ''%s is not empty'' [S (table @ ''/'' @ chain)])"
  using assms by (simp add: DeleteChain_def)

lemma DeleteChain_unknown:
  assumes "fake_n f (table @ ''/'' @ chain) = None"
  shows "DeleteChain f table chain =
           Returns (Some errExec) (t_Errorf f ''%s does not exist'' [S (table @ ''/'' @ chain)])"
  using assms by (simp add: DeleteChain_def)

text \<open>
  Claim C5. \<^verbatim>\<open>DeleteChain\<close> returns no error exactly when the chain exists and holds no
  rule, and then the chain is removed and no other chain changes. On a chain that holds
  rules it returns \<open>errExec\<close> and every chain, this one included, keeps its rules; on an
  absent chain it returns \<open>errExec\<close> as well.
\<close>

theorem DeleteChain_only_empty:
  "((\<exists>f'. DeleteChain f table chain = Returns None f') \<longleftrightarrow>
      hasChain f table chain \<and> fake_n f (table @ ''/'' @ chain) = Some []) \<and>
   (\<forall>f'. DeleteChain f table chain = Returns None f' \<longrightarrow>
      fake_n f' = (fake_n f)(table @ ''/'' @ chain := None) \<and> \<not> hasChain f' table chain) \<and>
   (\<forall>rules. fake_n f (table @ ''/'' @ chain) = Some rules \<and> rules \<noteq> [] \<longrightarrow>
      (\<exists>f'. DeleteChain f table chain = Returns (Some errExec) f' \<and> fake_n f' = fake_n f)) \<and>
   (\<not> hasChain f table chain \<longrightarrow>
      (\<exists>f'. DeleteChain f table chain = Returns (Some errExec) f' \<and> fake_n f' = fake_n f))"
proof -
  consider (empty) "fake_n f (table @ ''/'' @ chain) = Some []"
    | (nonempty) rules where "fake_n f (table @ ''/'' @ chain) = Some rules" "rules \<noteq> []"
    | (unknown) "fake_n f (table @ ''/'' @ chain) = None"
    by (cases "fake_n f (table @ ''/'' @ chain)") auto
  then show ?thesis
  proof cases
    case empty
    show ?thesis
      using empty by (simp add: DeleteChain_empty[OF empty] hasChain_iff)
  next
    case nonempty
    show ?thesis
      using nonempty by (simp add: DeleteChain_nonempty[OF nonempty] hasChain_iff)
  next
    case unknown
    show ?thesis
      using unknown by (simp add: DeleteChain_unknown[OF unknown] hasChain_iff)
  qed
qed

theorem DeleteChain_only_empty_witness:
  "result_of (DeleteChain (state_of (NewChain newIPTables ''filter'' ''ts-input'')) ''filter'' ''ts-input'') = None \<and>
   fake_n (state_of (DeleteChain (state_of (NewChain newIPTables ''filter'' ''ts-input'')) ''filter'' ''ts-input''))
     = fake_n newIPTables \<and>
   result_of (DeleteChain (state_of (Append newIPTables ''filter'' ''INPUT'' [''-j'', ''DROP''])) ''filter'' ''INPUT'')
     = Some errExec \<and>
   fake_n (state_of (DeleteChain (state_of (Append newIPTables ''filter'' ''INPUT'' [''-j'', ''DROP''])) ''filter'' ''INPUT''))
     ''filter/INPUT'' = Some [''-j DROP''] \<and>
   result_of (DeleteChain newIPTables ''filter'' ''ts-input'') = Some errExec"
proof -
  let ?g = "state_of (NewChain newIPTables ''filter'' ''ts-input'')"
  let ?h = "state_of (Append newIPTables ''filter'' ''INPUT'' [''-j'', ''DROP''])"
  have g: "?g = newIPTables\<lparr>fake_n := (fake_n newIPTables)(''filter/ts-input'' \<mapsto> [])\<rparr>"
    by (simp add: NewChain_def newIPTables_def)
  have gk: "hasChain ?g ''filter'' ''ts-input'' \<and> fake_n ?g (''filter'' @ ''/'' @ ''ts-input'') = Some []"
    by (simp add: g hasChain_iff)
  note v = DeleteChain_only_empty [of ?g "''filter''" "''ts-input''"]
  from v[THEN conjunct1] gk obtain f' where f': "DeleteChain ?g ''filter'' ''ts-input'' = Returns None f'"
    by blast
  from v[THEN conjunct2, THEN conjunct1, rule_format, OF f']
  have "fake_n f' = (fake_n ?g)(''filter'' @ ''/'' @ ''ts-input'' := None)" by blast
  also have "\<dots> = fake_n newIPTables"
    unfolding g by (simp add: fun_upd_idem_iff) (simp add: newIPTables_def)
  finally have a: "result_of (DeleteChain ?g ''filter'' ''ts-input'') = None"
    and b: "fake_n (state_of (DeleteChain ?g ''filter'' ''ts-input'')) = fake_n newIPTables"
    by (simp_all add: f')
  have hk: "fake_n ?h (''filter'' @ ''/'' @ ''INPUT'') = Some [''-j DROP''] \<and> [''-j DROP''] \<noteq> []"
    by (simp add: Append_new_DROP)
  from DeleteChain_only_empty [of ?h "''filter''" "''INPUT''",
      THEN conjunct2, THEN conjunct2, THEN conjunct1, rule_format, OF hk]
  obtain h' where h': "DeleteChain ?h ''filter'' ''INPUT'' = Returns (Some errExec) h'"
    "fake_n h' = fake_n ?h" by blast
  then have c: "result_of (DeleteChain ?h ''filter'' ''INPUT'') = Some errExec"
    and d: "fake_n (state_of (DeleteChain ?h ''filter'' ''INPUT'')) ''filter/INPUT'' = Some [''-j DROP'']"
    by (simp_all add: Append_new_DROP)
  from DeleteChain_only_empty [of newIPTables "''filter''" "''ts-input''",
      THEN conjunct2, THEN conjunct2, THEN conjunct2, rule_format, OF newIPTables_no_ts_input]
  have e: "result_of (DeleteChain newIPTables ''filter'' ''ts-input'') = Some errExec"
    by auto
  from a b c d e show ?thesis by blast
qed

section \<open>The position check of insertion\<close>

text \<open>
  Claim C6 as stated fails: position 0 does not exceed \<open>len + 1\<close>, and on the empty known
  chain \<^verbatim>\<open>filter/INPUT\<close> of a fresh controller \<^verbatim>\<open>Insert\<close> at position 0 does not succeed:
  it panics at \<^verbatim>\<open>rules[pos-1:]\<close>.
\<close>

theorem Insert_position_zero_counterexample:
  "hasChain newIPTables ''filter'' ''INPUT'' \<and>
   fake_n newIPTables ''filter/INPUT'' = Some [] \<and>
   (0::int) \<le> int (length ([]::string list)) + 1 \<and>
   Insert newIPTables ''filter'' ''INPUT'' 0 [''-j'', ''ts-input''] = Panics"
  by (simp add: hasChain_def newIPTables_def Insert_def slice_from_def)

text \<open>
  Claim C6, amended. \<^verbatim>\<open>Insert\<close> returns an error exactly when the chain is unknown or the
  position exceeds the length of the chain plus one, and the error is \<open>errExec\<close>; on a
  known chain and for a position \<open>pos\<close> with \<open>1 \<le> pos \<le> length rules + 1\<close> it succeeds.
\<close>

theorem Insert_error_cases:
  "((\<exists>e f'. Insert f table chain pos args = Returns (Some e) f') \<longleftrightarrow>
      (\<not> hasChain f table chain \<or>
       (\<exists>rules. fake_n f (table @ ''/'' @ chain) = Some rules \<and> pos > int (length rules) + 1))) \<and>
   (\<forall>e f'. Insert f table chain pos args = Returns (Some e) f' \<longrightarrow> e = errExec) \<and>
   (\<forall>rules. fake_n f (table @ ''/'' @ chain) = Some rules \<and>
      1 \<le> pos \<and> pos \<le> int (length rules) + 1 \<longrightarrow>
      (\<exists>f'. Insert f table chain pos args = Returns None f'))"
proof (cases "fake_n f (table @ ''/'' @ chain)")
  case None
  show ?thesis
    using None by (simp add: Insert_unknown[OF None] hasChain_iff)
next
  case (Some rules)
  consider (far) "pos > int (length rules) + 1"
    | (ok) "1 \<le> pos" "pos \<le> int (length rules) + 1"
    | (low) "pos \<le> 0"
    by linarith
  then show ?thesis
  proof cases
    case far
    show ?thesis
      using Some far by (simp add: Insert_too_far[OF Some far] hasChain_iff)
  next
    case ok
    show ?thesis
      using Some ok by (simp add: Insert_known[OF Some ok] hasChain_iff)
  next
    case low
    then have "\<not> pos > int (length rules) + 1" "\<not> 1 \<le> pos" by linarith+
    then show ?thesis
      using Some by (simp add: Insert_nonpositive[OF Some low] hasChain_iff)
  qed
qed

theorem Insert_error_cases_witness:
  "result_of (Insert newIPTables ''filter'' ''ts-input'' 1 [''-j'', ''DROP'']) = Some errExec \<and>
   result_of (Insert newIPTables ''filter'' ''INPUT'' 2 [''-j'', ''DROP'']) = Some errExec \<and>
   Insert newIPTables ''filter'' ''INPUT'' 1 [''-j'', ''DROP''] \<noteq> Panics \<and>
   result_of (Insert newIPTables ''filter'' ''INPUT'' 1 [''-j'', ''DROP'']) = None"
proof -
  from Insert_error_cases [of newIPTables "''filter''" "''ts-input''" 1 "[''-j'', ''DROP'']",
      THEN conjunct1] newIPTables_no_ts_input
  obtain e1 f1 where "Insert newIPTables ''filter'' ''ts-input'' 1 [''-j'', ''DROP''] = Returns (Some e1) f1"
    by blast
  with Insert_error_cases [of newIPTables "''filter''" "''ts-input''" 1 "[''-j'', ''DROP'']",
      THEN conjunct2, THEN conjunct1, rule_format, of e1 f1]
  have a: "result_of (Insert newIPTables ''filter'' ''ts-input'' 1 [''-j'', ''DROP'']) = Some errExec"
    by simp
  have "fake_n newIPTables (''filter'' @ ''/'' @ ''INPUT'') = Some [] \<and> (2::int) > int (length ([]::string list)) + 1"
    by (simp add: newIPTables_def)
  with Insert_error_cases [of newIPTables "''filter''" "''INPUT''" 2 "[''-j'', ''DROP'']",
      THEN conjunct1]
  obtain e2 f2 where "Insert newIPTables ''filter'' ''INPUT'' 2 [''-j'', ''DROP''] = Returns (Some e2) f2"
    by blast
  with Insert_error_cases [of newIPTables "''filter''" "''INPUT''" 2 "[''-j'', ''DROP'']",
      THEN conjunct2, THEN conjunct1, rule_format, of e2 f2]
  have b: "result_of (Insert newIPTables ''filter'' ''INPUT'' 2 [''-j'', ''DROP'']) = Some errExec"
    by simp
  have "fake_n newIPTables (''filter'' @ ''/'' @ ''INPUT'') = Some [] \<and>
        (1::int) \<le> 1 \<and> (1::int) \<le> int (length ([]::string list)) + 1"
    by (simp add: newIPTables_def)
  from Insert_error_cases [of newIPTables "''filter''" "''INPUT''" 1 "[''-j'', ''DROP'']",
      THEN conjunct2, THEN conjunct2, rule_format, OF this]
  obtain f3 where "Insert newIPTables ''filter'' ''INPUT'' 1 [''-j'', ''DROP''] = Returns None f3"
    by blast
  then have c: "Insert newIPTables ''filter'' ''INPUT'' 1 [''-j'', ''DROP''] \<noteq> Panics"
    and d: "result_of (Insert newIPTables ''filter'' ''INPUT'' 1 [''-j'', ''DROP'']) = None"
    by simp_all
  from a b c d show ?thesis by blast
qed

text \<open>
  Claim C10. On a known chain and for \<open>1 \<le> pos \<le> length rules + 1\<close>, the two slice
  expressions and the index assignment of \<^verbatim>\<open>Insert\<close> are all within bounds and the call
  returns no error. For \<open>pos \<le> 0\<close> the position check does not reject the call (the
  position is not above the bound), the slice expression \<^verbatim>\<open>rules[pos-1:]\<close> is out of
  range, and the call panics instead of returning.
\<close>

theorem Insert_checks_upper_bound_only:
  assumes "fake_n f (table @ ''/'' @ chain) = Some rules"
  shows "(1 \<le> pos \<and> pos \<le> int (length rules) + 1 \<longrightarrow>
           slice_from (rules @ ['''']) pos \<noteq> None \<and>
           slice_from (rules @ ['''']) (pos - 1) \<noteq> None \<and>
           index_set (take (nat pos) (rules @ ['''']) @
               go_copy (the (slice_from (rules @ ['''']) pos))
                 (the (slice_from (rules @ ['''']) (pos - 1))))
             (pos - 1) (Join args '' '') \<noteq> None \<and>
           (\<exists>f'. Insert f table chain pos args = Returns None f')) \<and>
         (pos \<le> 0 \<longrightarrow>
           \<not> pos > int (length rules) + 1 \<and>
           slice_from (rules @ ['''']) (pos - 1) = None \<and>
           Insert f table chain pos args = Panics)"
proof (intro conjI impI)
  assume p: "1 \<le> pos \<and> pos \<le> int (length rules) + 1"
  then show "slice_from (rules @ ['''']) pos \<noteq> None"
    and "slice_from (rules @ ['''']) (pos - 1) \<noteq> None"
    by (simp_all add: slice_from_def)
  from p have "pos - 1 < int (min (nat pos) (Suc (length rules)))" by linarith
  with p show "index_set (take (nat pos) (rules @ ['''']) @
               go_copy (the (slice_from (rules @ ['''']) pos))
                 (the (slice_from (rules @ ['''']) (pos - 1))))
             (pos - 1) (Join args '' '') \<noteq> None"
    by (simp add: index_set_def)
  from p Insert_known[OF assms, of pos args]
  show "\<exists>f'. Insert f table chain pos args = Returns None f'" by blast
next
  assume p: "pos \<le> 0"
  then show "\<not> pos > int (length rules) + 1" by linarith
  from p show "slice_from (rules @ ['''']) (pos - 1) = None"
    by (simp add: slice_from_def)
  from p show "Insert f table chain pos args = Panics"
    by (rule Insert_nonpositive[OF assms])
qed

theorem Insert_checks_upper_bound_only_witness:
  "Insert (state_of (Append newIPTables ''filter'' ''INPUT'' [''-j'', ''DROP'']))
      ''filter'' ''INPUT'' 2 [''-j'', ''ts-input''] \<noteq> Panics \<and>
   result_of (Insert (state_of (Append newIPTables ''filter'' ''INPUT'' [''-j'', ''DROP'']))
      ''filter'' ''INPUT'' 2 [''-j'', ''ts-input'']) = None \<and>
   Insert (state_of (Append newIPTables ''filter'' ''INPUT'' [''-j'', ''DROP'']))
      ''filter'' ''INPUT'' 0 [''-j'', ''ts-input''] = Panics \<and>
   Insert (state_of (Append newIPTables ''filter'' ''INPUT'' [''-j'', ''DROP'']))
      ''filter'' ''INPUT'' (- 3) [''-j'', ''ts-input''] = Panics"
proof -
  let ?f = "state_of (Append newIPTables ''filter'' ''INPUT'' [''-j'', ''DROP''])"
  have k: "fake_n ?f (''filter'' @ ''/'' @ ''INPUT'') = Some [''-j DROP'']"
    by (simp add: Append_new_DROP)
  have "(1::int) \<le> 2 \<and> (2::int) \<le> int (length [''-j DROP'']) + 1" by simp
  from Insert_checks_upper_bound_only [OF k, of 2 "[''-j'', ''ts-input'']", THEN conjunct1, rule_format, OF this]
  obtain f' where "Insert ?f ''filter'' ''INPUT'' 2 [''-j'', ''ts-input''] = Returns None f'"
    by blast
  then have a: "Insert ?f ''filter'' ''INPUT'' 2 [''-j'', ''ts-input''] \<noteq> Panics"
    and b: "result_of (Insert ?f ''filter'' ''INPUT'' 2 [''-j'', ''ts-input'']) = None"
    by simp_all
  have c: "Insert ?f ''filter'' ''INPUT'' 0 [''-j'', ''ts-input''] = Panics"
    using Insert_checks_upper_bound_only [OF k, of 0 "[''-j'', ''ts-input'']", THEN conjunct2, rule_format]
    by simp
  have d: "Insert ?f ''filter'' ''INPUT'' (- 3) [''-j'', ''ts-input''] = Panics"
    using Insert_checks_upper_bound_only [OF k, of "- 3" "[''-j'', ''ts-input'']", THEN conjunct2, rule_format]
    by simp
  from a b c d show ?thesis by blast
qed

section \<open>Inserting the same rule twice\<close>

text \<open>What a successful \<^verbatim>\<open>Insert\<close> and a successful \<^verbatim>\<open>Delete\<close> do to the number of
  occurrences of the rule in its chain, and to the other rules of the chain.\<close>

lemma Insert_effect:
  assumes "fake_n f (table @ ''/'' @ chain) = Some rules"
    and "1 \<le> pos" and "pos \<le> int (length rules) + 1"
  obtains rules' where
    "Insert f table chain pos args =
       Returns None (f\<lparr>fake_n := (fake_n f)(table @ ''/'' @ chain \<mapsto> rules')\<rparr>)"
    "length rules' = length rules + 1"
    "count_list rules' (Join args '' '') = count_list rules (Join args '' '') + 1"
    "filter (\<lambda>x. x \<noteq> Join args '' '') rules' = filter (\<lambda>x. x \<noteq> Join args '' '') rules"
proof -
  define q where "q = nat (pos - 1)"
  define rules' where "rules' = take q rules @ [Join args '' ''] @ drop q rules"
  have split: "take q rules @ drop q rules = rules" by simp
  have a: "Insert f table chain pos args =
       Returns None (f\<lparr>fake_n := (fake_n f)(table @ ''/'' @ chain \<mapsto> rules')\<rparr>)"
    unfolding rules'_def q_def by (rule Insert_known[OF assms])
  have b: "length rules' = length rules + 1"
    using assms(2,3) by (simp add: rules'_def q_def)
  have "count_list rules' (Join args '' '') =
      count_list (take q rules @ drop q rules) (Join args '' '') + 1"
    unfolding rules'_def count_list_append by simp
  then have c: "count_list rules' (Join args '' '') = count_list rules (Join args '' '') + 1"
    unfolding split .
  have "filter (\<lambda>x. x \<noteq> Join args '' '') rules' =
      filter (\<lambda>x. x \<noteq> Join args '' '') (take q rules @ drop q rules)"
    unfolding rules'_def filter_append by simp
  then have d: "filter (\<lambda>x. x \<noteq> Join args '' '') rules' = filter (\<lambda>x. x \<noteq> Join args '' '') rules"
    unfolding split .
  from a b c d show thesis by (rule that)
qed

lemma Delete_effect:
  assumes "fake_n f (table @ ''/'' @ chain) = Some rules"
    and "Join args '' '' \<in> set rules"
  obtains rules' where
    "Delete f table chain args =
       Returns None (f\<lparr>fake_n := (fake_n f)(table @ ''/'' @ chain \<mapsto> rules')\<rparr>)"
    "count_list rules' (Join args '' '') + 1 = count_list rules (Join args '' '')"
    "filter (\<lambda>x. x \<noteq> Join args '' '') rules' = filter (\<lambda>x. x \<noteq> Join args '' '') rules"
proof -
  from Delete_known_present[OF assms] obtain xs ys where
    r: "rules = xs @ Join args '' '' # ys"
    and d: "Delete f table chain args =
       Returns None (f\<lparr>fake_n := (fake_n f)(table @ ''/'' @ chain \<mapsto> xs @ ys)\<rparr>)"
    by blast
  have "count_list (xs @ ys) (Join args '' '') + 1 = count_list rules (Join args '' '')"
    by (simp add: r)
  moreover have "filter (\<lambda>x. x \<noteq> Join args '' '') (xs @ ys) = filter (\<lambda>x. x \<noteq> Join args '' '') rules"
    by (simp add: r)
  ultimately show thesis using d by (rule that[rotated])
qed

lemma count_list_pos_mem: "0 < count_list xs x \<Longrightarrow> x \<in> set xs"
  using count_list_0_iff[of xs x] by auto

lemma filter_neq_id: "x \<notin> set xs \<Longrightarrow> filter (\<lambda>y. y \<noteq> x) xs = xs"
  by (induction xs) auto

lemma Insert_twice_new:
  "Insert (state_of (Insert newIPTables ''filter'' ''INPUT'' 1 [''-j'', ''ts-input'']))
       ''filter'' ''INPUT'' 1 [''-j'', ''ts-input''] =
     Returns None (newIPTables\<lparr>fake_n := (fake_n newIPTables)(''filter/INPUT'' \<mapsto> [''-j ts-input'', ''-j ts-input''])\<rparr>)"
  by (simp add: Insert_def newIPTables_def slice_from_def go_copy_def index_set_def)

text \<open>
  Claim C8 as stated fails: the controller keeps duplicates. After the same argument list
  is inserted twice in \<^verbatim>\<open>filter/INPUT\<close> of a fresh controller the chain holds the rule
  twice, and after a single \<^verbatim>\<open>Delete\<close> of it \<^verbatim>\<open>Exists\<close> still returns \<open>(true, nil)\<close>.
\<close>

theorem Insert_twice_counterexample:
  "result_of (Insert newIPTables ''filter'' ''INPUT'' 1 [''-j'', ''ts-input'']) = None \<and>
   result_of (Insert (state_of (Insert newIPTables ''filter'' ''INPUT'' 1 [''-j'', ''ts-input'']))
       ''filter'' ''INPUT'' 1 [''-j'', ''ts-input'']) = None \<and>
   fake_n (state_of (Insert (state_of (Insert newIPTables ''filter'' ''INPUT'' 1 [''-j'', ''ts-input'']))
       ''filter'' ''INPUT'' 1 [''-j'', ''ts-input''])) ''filter/INPUT'' =
     Some [''-j ts-input'', ''-j ts-input''] \<and>
   result_of (Delete (state_of (Insert (state_of (Insert newIPTables ''filter'' ''INPUT'' 1 [''-j'', ''ts-input'']))
       ''filter'' ''INPUT'' 1 [''-j'', ''ts-input''])) ''filter'' ''INPUT'' [''-j'', ''ts-input'']) = None \<and>
   result_of (Exists (state_of (Delete (state_of (Insert (state_of (Insert newIPTables ''filter'' ''INPUT'' 1 [''-j'', ''ts-input'']))
       ''filter'' ''INPUT'' 1 [''-j'', ''ts-input''])) ''filter'' ''INPUT'' [''-j'', ''ts-input'']))
       ''filter'' ''INPUT'' [''-j'', ''ts-input'']) = (True, None)"
  unfolding Insert_twice_new
  by (simp add: Insert_def newIPTables_def slice_from_def go_copy_def index_set_def Delete_def Exists_def)

text \<open>
  Claim C8, amended. On a known chain, inserting the same argument list twice (at any two
  valid positions) succeeds both times and leaves two more occurrences of the rule in the
  chain, which is longer by two; a \<^verbatim>\<open>Delete\<close> removes one occurrence only, and
  \<^verbatim>\<open>Exists\<close> still returns \<open>(true, nil)\<close> after it. If the chain did not hold the rule
  before, a second \<^verbatim>\<open>Delete\<close> succeeds, brings every chain back to what it was before
  the two insertions, and only then does \<^verbatim>\<open>Exists\<close> return \<open>(false, nil)\<close>.
\<close>

theorem duplicates_are_counted:
  assumes "fake_n f (table @ ''/'' @ chain) = Some rules"
    and "1 \<le> p1" and "p1 \<le> int (length rules) + 1"
    and "1 \<le> p2" and "p2 \<le> int (length rules) + 2"
  shows "\<exists>f1 f2 f3 rules1 rules2 rules3.
           Insert f table chain p1 args = Returns None f1 \<and>
           fake_n f1 (table @ ''/'' @ chain) = Some rules1 \<and>
           count_list rules1 (Join args '' '') = count_list rules (Join args '' '') + 1 \<and>
           Insert f1 table chain p2 args = Returns None f2 \<and>
           fake_n f2 (table @ ''/'' @ chain) = Some rules2 \<and>
           length rules2 = length rules + 2 \<and>
           count_list rules2 (Join args '' '') = count_list rules (Join args '' '') + 2 \<and>
           Delete f2 table chain args = Returns None f3 \<and>
           fake_n f3 (table @ ''/'' @ chain) = Some rules3 \<and>
           count_list rules3 (Join args '' '') = count_list rules (Join args '' '') + 1 \<and>
           Exists f3 table chain args = Returns (True, None) f3 \<and>
           (Join args '' '' \<notin> set rules \<longrightarrow>
              (\<exists>f4. Delete f3 table chain args = Returns None f4 \<and>
                    fake_n f4 = fake_n f \<and>
                    Exists f4 table chain args = Returns (False, None) f4))"
proof -
  let ?k = "table @ ''/'' @ chain"
  let ?j = "Join args '' ''"
  from Insert_effect[OF assms(1,2,3), of args] obtain rules1 where
    i1: "Insert f table chain p1 args = Returns None (f\<lparr>fake_n := (fake_n f)(?k \<mapsto> rules1)\<rparr>)"
    and l1: "length rules1 = length rules + 1"
    and c1: "count_list rules1 ?j = count_list rules ?j + 1"
    and e1: "filter (\<lambda>x. x \<noteq> ?j) rules1 = filter (\<lambda>x. x \<noteq> ?j) rules"
    by blast
  define f1 where "f1 = f\<lparr>fake_n := (fake_n f)(?k \<mapsto> rules1)\<rparr>"
  have k1: "fake_n f1 ?k = Some rules1" by (simp add: f1_def)
  have b2: "p2 \<le> int (length rules1) + 1" using assms(5) l1 by simp
  from Insert_effect[OF k1 assms(4) b2, of args] obtain rules2 where
    i2: "Insert f1 table chain p2 args = Returns None (f1\<lparr>fake_n := (fake_n f1)(?k \<mapsto> rules2)\<rparr>)"
    and l2: "length rules2 = length rules1 + 1"
    and c2: "count_list rules2 ?j = count_list rules1 ?j + 1"
    and e2: "filter (\<lambda>x. x \<noteq> ?j) rules2 = filter (\<lambda>x. x \<noteq> ?j) rules1"
    by blast
  define f2 where "f2 = f1\<lparr>fake_n := (fake_n f1)(?k \<mapsto> rules2)\<rparr>"
  have k2: "fake_n f2 ?k = Some rules2" by (simp add: f2_def)
  have m2: "?j \<in> set rules2" using c2 by (intro count_list_pos_mem) simp
  from Delete_effect[OF k2 m2] obtain rules3 where
    d3: "Delete f2 table chain args = Returns None (f2\<lparr>fake_n := (fake_n f2)(?k \<mapsto> rules3)\<rparr>)"
    and c3: "count_list rules3 ?j + 1 = count_list rules2 ?j"
    and e3: "filter (\<lambda>x. x \<noteq> ?j) rules3 = filter (\<lambda>x. x \<noteq> ?j) rules2"
    by blast
  define f3 where "f3 = f2\<lparr>fake_n := (fake_n f2)(?k \<mapsto> rules3)\<rparr>"
  have k3: "fake_n f3 ?k = Some rules3" by (simp add: f3_def)
  have n3: "count_list rules3 ?j = count_list rules ?j + 1" using c1 c2 c3 by simp
  have m3: "?j \<in> set rules3" using n3 by (intro count_list_pos_mem) simp
  have x3: "Exists f3 table chain args = Returns (True, None) f3"
    using Exists_known[OF k3, of args] m3 by simp
  have last: "\<exists>f4. Delete f3 table chain args = Returns None f4 \<and> fake_n f4 = fake_n f \<and>
      Exists f4 table chain args = Returns (False, None) f4"
    if fresh: "?j \<notin> set rules"
  proof -
    from Delete_effect[OF k3 m3] obtain rules4 where
      d4: "Delete f3 table chain args = Returns None (f3\<lparr>fake_n := (fake_n f3)(?k \<mapsto> rules4)\<rparr>)"
      and c4: "count_list rules4 ?j + 1 = count_list rules3 ?j"
      and e4: "filter (\<lambda>x. x \<noteq> ?j) rules4 = filter (\<lambda>x. x \<noteq> ?j) rules3"
      by blast
    define f4 where "f4 = f3\<lparr>fake_n := (fake_n f3)(?k \<mapsto> rules4)\<rparr>"
    from fresh have "count_list rules ?j = 0" by (simp add: count_list_0_iff)
    with c4 n3 have "count_list rules4 ?j = 0" by simp
    then have n4: "?j \<notin> set rules4" by (simp add: count_list_0_iff)
    have "rules4 = filter (\<lambda>x. x \<noteq> ?j) rules4" using filter_neq_id[OF n4] by simp
    also have "\<dots> = filter (\<lambda>x. x \<noteq> ?j) rules" using e1 e2 e3 e4 by simp
    also have "\<dots> = rules" by (rule filter_neq_id[OF fresh])
    finally have r4: "rules4 = rules" .
    have "fake_n f4 = (fake_n f)(?k \<mapsto> rules)"
      by (simp add: f4_def f3_def f2_def f1_def r4)
    also have "\<dots> = fake_n f" using assms(1) by (rule map_upd_triv)
    finally have s4: "fake_n f4 = fake_n f" .
    have k4: "fake_n f4 ?k = Some rules4" by (simp add: f4_def)
    have x4: "Exists f4 table chain args = Returns (False, None) f4"
      using Exists_known[OF k4, of args] n4 by simp
    from d4 s4 x4 show ?thesis unfolding f4_def[symmetric] by blast
  qed
  have l: "length rules2 = length rules + 2" using l1 l2 by simp
  have c: "count_list rules2 ?j = count_list rules ?j + 2" using c1 c2 by simp
  from i1 k1 c1 i2 k2 l c d3 k3 n3 x3 last
  show ?thesis unfolding f1_def[symmetric] f2_def[symmetric] f3_def[symmetric] by blast
qed

theorem duplicates_are_counted_witness:
  "result_of (Exists (state_of (Delete (state_of (Insert (state_of
       (Insert newIPTables ''filter'' ''INPUT'' 1 [''-j'', ''ts-input'']))
       ''filter'' ''INPUT'' 2 [''-j'', ''ts-input''])) ''filter'' ''INPUT'' [''-j'', ''ts-input'']))
       ''filter'' ''INPUT'' [''-j'', ''ts-input'']) = (True, None) \<and>
   result_of (Exists (state_of (Delete (state_of (Delete (state_of (Insert (state_of
       (Insert newIPTables ''filter'' ''INPUT'' 1 [''-j'', ''ts-input'']))
       ''filter'' ''INPUT'' 2 [''-j'', ''ts-input''])) ''filter'' ''INPUT'' [''-j'', ''ts-input'']))
       ''filter'' ''INPUT'' [''-j'', ''ts-input'']))
       ''filter'' ''INPUT'' [''-j'', ''ts-input'']) = (False, None)"
proof -
  have b: "(1::int) \<le> 1" "(1::int) \<le> int (length ([]::string list)) + 1"
    "(1::int) \<le> 2" "(2::int) \<le> int (length ([]::string list)) + 2"
    by simp_all
  from duplicates_are_counted [OF newIPTables_INPUT b, of "[''-j'', ''ts-input'']"]
  obtain f1 f2 f3 where
    i1: "Insert newIPTables ''filter'' ''INPUT'' 1 [''-j'', ''ts-input''] = Returns None f1"
    and i2: "Insert f1 ''filter'' ''INPUT'' 2 [''-j'', ''ts-input''] = Returns None f2"
    and d3: "Delete f2 ''filter'' ''INPUT'' [''-j'', ''ts-input''] = Returns None f3"
    and x3: "Exists f3 ''filter'' ''INPUT'' [''-j'', ''ts-input''] = Returns (True, None) f3"
    and rest: "Join [''-j'', ''ts-input''] '' '' \<notin> set [] \<longrightarrow>
      (\<exists>f4. Delete f3 ''filter'' ''INPUT'' [''-j'', ''ts-input''] = Returns None f4 \<and>
            fake_n f4 = fake_n newIPTables \<and>
            Exists f4 ''filter'' ''INPUT'' [''-j'', ''ts-input''] = Returns (False, None) f4)"
    by blast
  from rest obtain f4 where
    d4: "Delete f3 ''filter'' ''INPUT'' [''-j'', ''ts-input''] = Returns None f4"
    and x4: "Exists f4 ''filter'' ''INPUT'' [''-j'', ''ts-input''] = Returns (False, None) f4"
    by auto
  show ?thesis
    by (simp add: i1 i2 d3 x3 d4 x4)
qed

section \<open>Errors leave the chains as they were\<close>

lemma Insert_error_unchanged:
  "Insert f table chain pos args = Returns (Some e) f' \<Longrightarrow> fake_n f' = fake_n f"
  by (auto simp: Insert_def Let_def split: option.splits if_splits)

lemma Delete_error_unchanged:
  "Delete f table chain args = Returns (Some e) f' \<Longrightarrow> fake_n f' = fake_n f"
  by (auto simp: Delete_def Let_def split: option.splits)

lemma NewChain_error_unchanged:
  "NewChain f table chain = Returns (Some e) f' \<Longrightarrow> fake_n f' = fake_n f"
  by (auto simp: NewChain_def Let_def split: option.splits)

lemma ClearChain_error_unchanged:
  "ClearChain f table chain = Returns (Some e) f' \<Longrightarrow> fake_n f' = fake_n f"
  by (auto simp: ClearChain_def Let_def split: option.splits)

lemma DeleteChain_error_unchanged:
  "DeleteChain f table chain = Returns (Some e) f' \<Longrightarrow> fake_n f' = fake_n f"
  by (auto simp: DeleteChain_def Let_def split: option.splits if_splits)

lemma Exists_unchanged:
  "Exists f table chain args = Returns r f' \<Longrightarrow> fake_n f' = fake_n f"
  by (auto simp: Exists_def Let_def split: option.splits)

lemma Exists_returns: "Exists f table chain args \<noteq> Panics"
  by (simp add: Exists_def Let_def split: option.splits)

text \<open>
  Claim C9. Whenever \<^verbatim>\<open>Insert\<close>, \<^verbatim>\<open>Append\<close>, \<^verbatim>\<open>Delete\<close>, \<^verbatim>\<open>NewChain\<close>,
  \<^verbatim>\<open>ClearChain\<close> or \<^verbatim>\<open>DeleteChain\<close> returns an error, the map of the chains (which
  chains there are, and the rule list of each) is what it was before the call. \<^verbatim>\<open>Exists\<close>
  always returns, and never changes the map of the chains, whatever it returns. (The
  calls made on the test handle are not part of the chains: an error is reported there.)
\<close>

theorem errors_leave_chains_unchanged:
  "(\<forall>e f'. Insert f table chain pos args = Returns (Some e) f' \<longrightarrow> fake_n f' = fake_n f) \<and>
   (\<forall>e f'. Append f table chain args = Returns (Some e) f' \<longrightarrow> fake_n f' = fake_n f) \<and>
   (\<forall>e f'. Delete f table chain args = Returns (Some e) f' \<longrightarrow> fake_n f' = fake_n f) \<and>
   (\<forall>e f'. NewChain f table chain = Returns (Some e) f' \<longrightarrow> fake_n f' = fake_n f) \<and>
   (\<forall>e f'. ClearChain f table chain = Returns (Some e) f' \<longrightarrow> fake_n f' = fake_n f) \<and>
   (\<forall>e f'. DeleteChain f table chain = Returns (Some e) f' \<longrightarrow> fake_n f' = fake_n f) \<and>
   (\<forall>r f'. Exists f table chain args = Returns r f' \<longrightarrow> fake_n f' = fake_n f) \<and>
   Exists f table chain args \<noteq> Panics"
proof (intro conjI allI impI)
  fix e f' assume "Append f table chain args = Returns (Some e) f'"
  then show "fake_n f' = fake_n f"
    unfolding Append_def Let_def by (rule Insert_error_unchanged)
qed (erule Insert_error_unchanged Delete_error_unchanged NewChain_error_unchanged
      ClearChain_error_unchanged DeleteChain_error_unchanged Exists_unchanged
    | rule Exists_returns)+

theorem errors_leave_chains_unchanged_witness:
  "result_of (Insert newIPTables ''filter'' ''INPUT'' 5 [''-j'', ''DROP'']) = Some errExec \<and>
   fake_n (state_of (Insert newIPTables ''filter'' ''INPUT'' 5 [''-j'', ''DROP''])) = fake_n newIPTables \<and>
   result_of (Append newIPTables ''filter'' ''ts-input'' [''-j'', ''DROP'']) = Some errExec \<and>
   fake_n (state_of (Append newIPTables ''filter'' ''ts-input'' [''-j'', ''DROP''])) = fake_n newIPTables \<and>
   result_of (Delete newIPTables ''filter'' ''INPUT'' [''-j'', ''DROP'']) = Some errExec \<and>
   fake_n (state_of (Delete newIPTables ''filter'' ''INPUT'' [''-j'', ''DROP''])) = fake_n newIPTables \<and>
   result_of (NewChain newIPTables ''filter'' ''INPUT'') = Some errExec \<and>
   fake_n (state_of (NewChain newIPTables ''filter'' ''INPUT'')) = fake_n newIPTables \<and>
   result_of (ClearChain newIPTables ''filter'' ''ts-input'') = Some exitcode1 \<and>
   fake_n (state_of (ClearChain newIPTables ''filter'' ''ts-input'')) = fake_n newIPTables \<and>
   result_of (DeleteChain newIPTables ''filter'' ''ts-input'') = Some errExec \<and>
   fake_n (state_of (DeleteChain newIPTables ''filter'' ''ts-input'')) = fake_n newIPTables \<and>
   result_of (Exists newIPTables ''filter'' ''ts-input'' [''-j'', ''DROP'']) = (False, Some errExec) \<and>
   fake_n (state_of (Exists newIPTables ''filter'' ''ts-input'' [''-j'', ''DROP''])) = fake_n newIPTables"
proof -
  note known = errors_leave_chains_unchanged
    [of newIPTables "''filter''" "''INPUT''" 5 "[''-j'', ''DROP'']"]
  note unknown = errors_leave_chains_unchanged
    [of newIPTables "''filter''" "''ts-input''" 1 "[''-j'', ''DROP'']"]
  have k: "fake_n newIPTables (''filter'' @ ''/'' @ ''INPUT'') = Some []"
    by (rule newIPTables_INPUT)
  have u: "fake_n newIPTables (''filter'' @ ''/'' @ ''ts-input'') = None"
    using newIPTables_no_ts_input by (simp add: hasChain_iff)
  have i: "Insert newIPTables ''filter'' ''INPUT'' 5 [''-j'', ''DROP''] =
      Returns (Some errExec) (state_of (Insert newIPTables ''filter'' ''INPUT'' 5 [''-j'', ''DROP'']))"
    by (simp add: Insert_too_far[OF k])
  have a: "Append newIPTables ''filter'' ''ts-input'' [''-j'', ''DROP''] =
      Returns (Some errExec) (state_of (Append newIPTables ''filter'' ''ts-input'' [''-j'', ''DROP'']))"
    using u by (simp add: Append_def Insert_unknown[OF u])
  have d: "Delete newIPTables ''filter'' ''INPUT'' [''-j'', ''DROP''] =
      Returns (Some errExec) (state_of (Delete newIPTables ''filter'' ''INPUT'' [''-j'', ''DROP'']))"
    by (simp add: Delete_known_absent[OF k])
  have n: "NewChain newIPTables ''filter'' ''INPUT'' =
      Returns (Some errExec) (state_of (NewChain newIPTables ''filter'' ''INPUT''))"
    using k by (simp add: NewChain_def)
  have c: "ClearChain newIPTables ''filter'' ''ts-input'' =
      Returns (Some exitcode1) (state_of (ClearChain newIPTables ''filter'' ''ts-input''))"
    using u by (simp add: ClearChain_def)
  have dc: "DeleteChain newIPTables ''filter'' ''ts-input'' =
      Returns (Some errExec) (state_of (DeleteChain newIPTables ''filter'' ''ts-input''))"
    by (simp add: DeleteChain_unknown[OF u])
  have x: "Exists newIPTables ''filter'' ''ts-input'' [''-j'', ''DROP''] =
      Returns (False, Some errExec) (state_of (Exists newIPTables ''filter'' ''ts-input'' [''-j'', ''DROP'']))"
    by (simp add: Exists_unknown[OF u])
  note c1 = known[THEN conjunct1, rule_format, OF i]
  note c2 = unknown[THEN conjunct2, THEN conjunct1, rule_format, OF a]
  note c3 = known[THEN conjunct2, THEN conjunct2, THEN conjunct1, rule_format, OF d]
  note c4 = known[THEN conjunct2, THEN conjunct2, THEN conjunct2, THEN conjunct1, rule_format, OF n]
  note c5 = unknown[THEN conjunct2, THEN conjunct2, THEN conjunct2, THEN conjunct2,
      THEN conjunct1, rule_format, OF c]
  note c6 = unknown[THEN conjunct2, THEN conjunct2, THEN conjunct2, THEN conjunct2,
      THEN conjunct2, THEN conjunct1, rule_format, OF dc]
  note c7 = unknown[THEN conjunct2, THEN conjunct2, THEN conjunct2, THEN conjunct2,
      THEN conjunct2, THEN conjunct2, THEN conjunct1, rule_format, OF x]
  have r: "result_of (Insert newIPTables ''filter'' ''INPUT'' 5 [''-j'', ''DROP'']) = Some errExec"
    "result_of (Append newIPTables ''filter'' ''ts-input'' [''-j'', ''DROP'']) = Some errExec"
    "result_of (Delete newIPTables ''filter'' ''INPUT'' [''-j'', ''DROP'']) = Some errExec"
    "result_of (NewChain newIPTables ''filter'' ''INPUT'') = Some errExec"
    "result_of (ClearChain newIPTables ''filter'' ''ts-input'') = Some exitcode1"
    "result_of (DeleteChain newIPTables ''filter'' ''ts-input'') = Some errExec"
    "result_of (Exists newIPTables ''filter'' ''ts-input'' [''-j'', ''DROP'']) = (False, Some errExec)"
    by (subst i a d n c dc x, simp)+
  from r c1 c2 c3 c4 c5 c6 c7 show ?thesis by blast
qed

section \<open>Hooks into the built-in chains\<close>















end
